theory Spec2Isabelle
  imports Complex_Main "HOL-Library.Word" "HOL-Library.Product_Lexorder"
begin

section \<open>TA++ (ta++.h, ta++-plot.h): the data model\<close>

text \<open>
  The scalar types of TA-Lib as the headers use them: \<open>TA_Integer\<close> and
  \<open>TA_OutputFlags\<close> are C \<open>int\<close>, \<open>unsigned\<close> is a 32-bit unsigned integer; both are
  32-bit words here (\<open>sint\<close> reads a word as the signed \<open>int\<close>, \<open>unat\<close> as the
  unsigned one, and \<open>+\<close>, \<open>-\<close> wrap around as the conversions between the two do in
  the code). \<open>size_t\<close> values are lengths of vectors and are natural numbers.
  \<open>TA_Real\<close> is C \<open>double\<close>; it is modelled by the real numbers, so rounding, infinities
  and NaN are outside the model.
\<close>

type_synonym TA_Integer = "32 word"
type_synonym TA_OutputFlags = "32 word"
type_synonym unsigned = "32 word"
type_synonym TA_Real = real

subsection \<open>panic and verify\<close>

text \<open>
  \<open>panic_intern\<close> prints a diagnostic on stderr and calls \<open>exit(-1)\<close>: the process
  ends and the caller gets nothing back. An aborted run is the value \<open>Inl (Panic f msg)\<close>,
  with \<open>f\<close> the \<open>__FUNCTION__\<close> and \<open>msg\<close> the formatted text of the diagnostic (empty
  for a bare \<open>panic()\<close>, \<open>!(expr)\<close> for \<open>verify(expr)\<close>). \<open>Thrown\<close> is a C++
  exception leaving the function (\<open>boost::gregorian::from_string\<close> throws on a token
  that is no date).
\<close>

datatype abort = Panic string string | Thrown string

definition bindE :: "abort + 'a \<Rightarrow> ('a \<Rightarrow> abort + 'b) \<Rightarrow> abort + 'b" where
  "bindE m f = (case m of Inl e \<Rightarrow> Inl e | Inr x \<Rightarrow> f x)"

definition panic :: "string \<Rightarrow> abort + 'a" where
  "panic fn = Inl (Panic fn [])"

definition verify :: "string \<Rightarrow> string \<Rightarrow> bool \<Rightarrow> abort + unit" where
  "verify fn expr x = (if x then Inr () else Inl (Panic fn (''!('' @ expr @ '')'')))"

subsection \<open>Candle\<close>



subsection \<open>BaseSeries, Series, Candles\<close>

text \<open>
  \<open>class BaseSeries\<close> holds \<open>first\<close> and \<open>flags\<close>; the fields are named after their
  accessors. \<open>Series<T>\<close> is a \<open>BaseSeries\<close> and a \<open>std::vector<T>\<close> (\<open>elems\<close>).
\<close>

record BaseSeries =
  getFirst :: TA_Integer
  getFlags :: TA_OutputFlags

record 'a Series = BaseSeries +
  elems :: "'a list"

type_synonym RealSeries = "TA_Real Series"
type_synonym IntegerSeries = "TA_Integer Series"

definition setFirst :: "'z BaseSeries_scheme \<Rightarrow> TA_Integer \<Rightarrow> 'z BaseSeries_scheme" where
  "setFirst s f = s\<lparr>getFirst := f\<rparr>"

definition setFlags :: "'z BaseSeries_scheme \<Rightarrow> TA_OutputFlags \<Rightarrow> 'z BaseSeries_scheme" where
  "setFlags s f = s\<lparr>getFlags := f\<rparr>"

definition Series_new :: "'a Series" where
  "Series_new = \<lparr>getFirst = 0, getFlags = 0, elems = []\<rparr>"

definition Series_size :: "'a Series \<Rightarrow> nat" where
  "Series_size s = length (elems s)"

definition push_back :: "'a Series \<Rightarrow> 'a \<Rightarrow> 'a Series" where
  "push_back s x = s\<lparr>elems := elems s @ [x]\<rparr>"

text \<open>
  \<open>std::vector::resize(n)\<close>: the first \<open>n\<close> elements are kept, new ones are
  value-initialised (zero).
\<close>

definition resize :: "('a::zero) Series \<Rightarrow> nat \<Rightarrow> 'a Series" where
  "resize s n = s\<lparr>elems := take n (elems s) @ replicate (n - length (elems s)) 0\<rparr>"

text \<open>
  \<open>class Candles: public BaseSeries\<close>: the base subobject and the seven member series,
  the latter named after their accessors.
\<close>

record 't Candles =
  base :: BaseSeries
  getOpen :: RealSeries
  getHigh :: RealSeries
  getLow :: RealSeries
  getClose :: RealSeries
  getVolume :: RealSeries
  getOpenInterest :: RealSeries
  getTime :: "'t Series"

definition Candles_getFirst :: "'t Candles \<Rightarrow> TA_Integer" where
  "Candles_getFirst c = getFirst (base c)"

definition Candles_getFlags :: "'t Candles \<Rightarrow> TA_OutputFlags" where
  "Candles_getFlags c = getFlags (base c)"

definition Candles_size :: "'t Candles \<Rightarrow> nat" where
  "Candles_size c = Series_size (getOpen c)"

definition Candles_setFirst :: "'t Candles \<Rightarrow> TA_Integer \<Rightarrow> 't Candles" where
  "Candles_setFirst c f =
    c\<lparr>base := setFirst (base c) f,
      getOpen := setFirst (getOpen c) f,
      getHigh := setFirst (getHigh c) f,
      getLow := setFirst (getLow c) f,
      getClose := setFirst (getClose c) f,
      getVolume := setFirst (getVolume c) f,
      getOpenInterest := setFirst (getOpenInterest c) f,
      getTime := setFirst (getTime c) f\<rparr>"

definition Candles_setFlags :: "'t Candles \<Rightarrow> TA_OutputFlags \<Rightarrow> 't Candles" where
  "Candles_setFlags c f =
    c\<lparr>base := setFlags (base c) f,
      getOpen := setFlags (getOpen c) f,
      getHigh := setFlags (getHigh c) f,
      getLow := setFlags (getLow c) f,
      getClose := setFlags (getClose c) f,
      getVolume := setFlags (getVolume c) f,
      getOpenInterest := setFlags (getOpenInterest c) f,
      getTime := setFlags (getTime c) f\<rparr>"

subsection \<open>Candles::LoadFromFile\<close>

text \<open>
  One \<open>Row\<close> is what one successful evaluation of the loop condition
  \<open>fin >> buf >> candle.open >> ... >> candle.openInterest\<close> extracts. A file is
  \<open>None\<close> when the stream is not good after opening it, and otherwise the rows
  extracted until the first extraction that fails (end of file or a malformed token).
  \<open>str2time\<close> is Boost's \<open>from_string\<close>, a parameter: \<open>None\<close> when it throws.
\<close>

record Row =
  buf :: string
  row_open :: TA_Real
  row_high :: TA_Real
  row_low :: TA_Real
  row_close :: TA_Real
  row_volume :: TA_Real
  row_openInterest :: TA_Real

text \<open>
  How a call of a member function that mutates the object ends: it returns, or an
  exception leaves it; either way the object is left in a state.
\<close>

datatype 'a completion = Return 'a | Throw string 'a

text \<open>The seven \<open>push_back\<close> calls of the loop body, in the order of the source.\<close>

definition push_back_candle :: "'t Candles \<Rightarrow> 't \<Rightarrow> Row \<Rightarrow> 't Candles" where
  "push_back_candle c t r =
    c\<lparr>getTime := push_back (getTime c) t,
      getOpen := push_back (getOpen c) (row_open r),
      getHigh := push_back (getHigh c) (row_high r),
      getLow := push_back (getLow c) (row_low r),
      getClose := push_back (getClose c) (row_close r),
      getVolume := push_back (getVolume c) (row_volume r),
      getOpenInterest := push_back (getOpenInterest c) (row_openInterest r)\<rparr>"

fun LoadFromFile_loop ::
  "(string \<Rightarrow> ('t::linorder) option) \<Rightarrow> 't \<Rightarrow> 't \<Rightarrow> Row list \<Rightarrow> 't Candles \<Rightarrow> 't Candles completion"
where
  "LoadFromFile_loop str2time begin end [] c = Return c"
| "LoadFromFile_loop str2time begin end (r # rest) c =
    (case str2time (buf r) of
       None \<Rightarrow> Throw ''str2time'' c
     | Some t \<Rightarrow>
         if t < begin then LoadFromFile_loop str2time begin end rest c
         else if t \<ge> end then Return c
         else LoadFromFile_loop str2time begin end rest (push_back_candle c t r))"

definition LoadFromFile ::
  "(string \<Rightarrow> ('t::linorder) option) \<Rightarrow> Row list option \<Rightarrow> 't \<Rightarrow> 't \<Rightarrow> 't Candles
    \<Rightarrow> abort + 't Candles completion"
where
  "LoadFromFile str2time file begin end c =
    (case file of
       None \<Rightarrow> Inl (Panic ''LoadFromFile'' ''!(fin)'')
     | Some rows \<Rightarrow> Inr (LoadFromFile_loop str2time begin end rows c))"

text \<open>
  The constructor \<open>Candles(path, begin, end)\<close>: the base and the seven members are
  default-constructed, then \<open>LoadFromFile\<close> runs. An exception that leaves a
  constructor leaves no object.
\<close>

definition Candles_empty :: "'t Candles" where
  "Candles_empty =
    \<lparr>base = \<lparr>getFirst = 0, getFlags = 0\<rparr>,
     getOpen = Series_new, getHigh = Series_new, getLow = Series_new,
     getClose = Series_new, getVolume = Series_new, getOpenInterest = Series_new,
     getTime = Series_new\<rparr>"

definition Candles_new ::
  "(string \<Rightarrow> ('t::linorder) option) \<Rightarrow> Row list option \<Rightarrow> 't \<Rightarrow> 't \<Rightarrow> abort + 't Candles"
where
  "Candles_new str2time file begin end =
    (case LoadFromFile str2time file begin end Candles_empty of
       Inl e \<Rightarrow> Inl e
     | Inr (Return c) \<Rightarrow> Inr c
     | Inr (Throw what c) \<Rightarrow> Inl (Thrown what))"

text \<open>
  A client of a bundle can only call \<open>LoadFromFile\<close>, \<open>setFirst\<close> and \<open>setFlags\<close> on
  it (the accessors return const references). \<open>run\<close> performs a sequence of such
  calls; a client that catches the exception of a load goes on with the object as the
  load left it, and a panic ends the run.
\<close>

datatype 't Candles_op =
  OpLoadFromFile "Row list option" 't 't
| OpSetFirst TA_Integer
| OpSetFlags TA_OutputFlags

fun run :: "(string \<Rightarrow> ('t::linorder) option) \<Rightarrow> 't Candles_op list \<Rightarrow> 't Candles \<Rightarrow> abort + 't Candles"
where
  "run str2time [] c = Inr c"
| "run str2time (OpLoadFromFile file begin end # ops) c =
    (case LoadFromFile str2time file begin end c of
       Inl e \<Rightarrow> Inl e
     | Inr (Return c') \<Rightarrow> run str2time ops c'
     | Inr (Throw what c') \<Rightarrow> run str2time ops c')"
| "run str2time (OpSetFirst f # ops) c = run str2time ops (Candles_setFirst c f)"
| "run str2time (OpSetFlags f # ops) c = run str2time ops (Candles_setFlags c f)"

text \<open>
  The window of the specification: the rows of a file whose time lies in
  \<open>[begin, end)\<close>, and a bundle with the columns of some rows appended to its members.
\<close>

definition row_time :: "(string \<Rightarrow> 't option) \<Rightarrow> Row \<Rightarrow> 't" where
  "row_time str2time r = the (str2time (buf r))"

definition in_window :: "(string \<Rightarrow> ('t::linorder) option) \<Rightarrow> 't \<Rightarrow> 't \<Rightarrow> Row \<Rightarrow> bool" where
  "in_window str2time begin end r \<longleftrightarrow> begin \<le> row_time str2time r \<and> row_time str2time r < end"

definition append_column :: "'a Series \<Rightarrow> 'a list \<Rightarrow> 'a Series" where
  "append_column s xs = s\<lparr>elems := elems s @ xs\<rparr>"

definition append_rows :: "(string \<Rightarrow> 't option) \<Rightarrow> 't Candles \<Rightarrow> Row list \<Rightarrow> 't Candles" where
  "append_rows str2time c rs =
    c\<lparr>getTime := append_column (getTime c) (map (row_time str2time) rs),
      getOpen := append_column (getOpen c) (map row_open rs),
      getHigh := append_column (getHigh c) (map row_high rs),
      getLow := append_column (getLow c) (map row_low rs),
      getClose := append_column (getClose c) (map row_close rs),
      getVolume := append_column (getVolume c) (map row_volume rs),
      getOpenInterest := append_column (getOpenInterest c) (map row_openInterest rs)\<rparr>"

text \<open>The invariant of a bundle: equal lengths, and \<open>first\<close> and \<open>flags\<close> shared by all.\<close>

definition Candles_aligned :: "'t Candles \<Rightarrow> bool" where
  "Candles_aligned c \<longleftrightarrow>
     Series_size (getHigh c) = Series_size (getOpen c)
   \<and> Series_size (getLow c) = Series_size (getOpen c)
   \<and> Series_size (getClose c) = Series_size (getOpen c)
   \<and> Series_size (getVolume c) = Series_size (getOpen c)
   \<and> Series_size (getOpenInterest c) = Series_size (getOpen c)
   \<and> Series_size (getTime c) = Series_size (getOpen c)"

definition Candles_synced :: "'t Candles \<Rightarrow> bool" where
  "Candles_synced c \<longleftrightarrow>
     getFirst (getOpen c) = Candles_getFirst c \<and> getFlags (getOpen c) = Candles_getFlags c
   \<and> getFirst (getHigh c) = Candles_getFirst c \<and> getFlags (getHigh c) = Candles_getFlags c
   \<and> getFirst (getLow c) = Candles_getFirst c \<and> getFlags (getLow c) = Candles_getFlags c
   \<and> getFirst (getClose c) = Candles_getFirst c \<and> getFlags (getClose c) = Candles_getFlags c
   \<and> getFirst (getVolume c) = Candles_getFirst c \<and> getFlags (getVolume c) = Candles_getFlags c
   \<and> getFirst (getOpenInterest c) = Candles_getFirst c
   \<and> getFlags (getOpenInterest c) = Candles_getFlags c
   \<and> getFirst (getTime c) = Candles_getFirst c \<and> getFlags (getTime c) = Candles_getFlags c"

text \<open>The state an ended call leaves the object in.\<close>

definition state_of :: "'a completion \<Rightarrow> 'a" where
  "state_of r = (case r of Return c \<Rightarrow> c | Throw what c \<Rightarrow> c)"

text \<open>
  An example file of three rows dated 2008-01-01, 2008-01-02 and 2008-01-03, with
  dates as (year, month, day) in lexicographic order and a \<open>str2time\<close> that knows
  these three tokens.
\<close>

definition example_str2time :: "string \<Rightarrow> (nat \<times> nat \<times> nat) option" where
  "example_str2time =
    map_of [(''2008-01-01'', (2008, 1, 1)), (''2008-01-02'', (2008, 1, 2)),
            (''2008-01-03'', (2008, 1, 3))]"

definition example_rows :: "Row list" where
  "example_rows =
    [\<lparr>buf = ''2008-01-01'', row_open = 10, row_high = 12, row_low = 9, row_close = 11,
       row_volume = 100, row_openInterest = 0\<rparr>,
     \<lparr>buf = ''2008-01-02'', row_open = 11, row_high = 13, row_low = 10, row_close = 12,
       row_volume = 200, row_openInterest = 0\<rparr>,
     \<lparr>buf = ''2008-01-03'', row_open = 12, row_high = 12, row_low = 8, row_close = 9,
       row_volume = 300, row_openInterest = 0\<rparr>]"

text \<open>A sequence of calls on the bundle built from the example file.\<close>

definition example_ops :: "(nat \<times> nat \<times> nat) Candles_op list" where
  "example_ops =
    [OpSetFirst 1, OpLoadFromFile (Some example_rows) (2008, 1, 1) (2008, 1, 2), OpSetFlags 16]"

section \<open>The indicator wrapper (class TA)\<close>

subsection \<open>TA-Lib\<close>

text \<open>
  TA-Lib is not part of the repository. Its enumerations and the fields of its
  information structures that the wrapper reads are declared here as \<open>ta_libc.h\<close>
  declares them; every return code other than \<open>TA_SUCCESS\<close> is \<open>TA_OTHER\<close>.
\<close>

datatype TA_RetCode = TA_SUCCESS | TA_OTHER nat

datatype TA_OptInputParameterType =
  TA_OptInput_RealRange | TA_OptInput_RealList | TA_OptInput_IntegerRange | TA_OptInput_IntegerList

datatype TA_OutputParameterType = TA_Output_Real | TA_Output_Integer

datatype TA_InputParameterType = TA_Input_Price | TA_Input_Real | TA_Input_Integer

record TA_FuncInfo =
  fi_name :: string
  nbInput :: nat
  nbOptInput :: nat
  nbOutput :: nat

record TA_OptInputParameterInfo =
  optinfo_type :: TA_OptInputParameterType
  optinfo_paramName :: string

record TA_OutputParameterInfo =
  outinfo_type :: TA_OutputParameterType
  outinfo_paramName :: string
  outinfo_flags :: TA_OutputFlags

record TA_InputParameterInfo =
  ininfo_type :: TA_InputParameterType

text \<open>
  A pointer into a vector, \<open>&v[i]\<close>: the elements of the vector and the index.
  \<open>operator[]\<close> converts its index to \<open>size_t\<close> without a check, so the index is an
  integer that may lie outside the vector.
\<close>

type_synonym 'a ptr = "'a list \<times> int"

text \<open>
  What \<open>TA_CallFunc\<close> gives back: its return code, the two integers it stores through
  \<open>outBegIdx\<close> and \<open>outNbElement\<close>, and the values it writes through the pointer bound
  to each output, from that pointer on.
\<close>

record TA_CallResult =
  retCode :: TA_RetCode
  outBegIdx :: TA_Integer
  outNbElement :: TA_Integer
  written_real :: "nat \<Rightarrow> TA_Real list"
  written_integer :: "nat \<Rightarrow> TA_Integer list"

text \<open>
  The functions of TA-Lib that the wrapper calls are parameters of the model. \<open>'h\<close> is
  what a \<open>TA_FuncHandle*\<close> stands for and \<open>'p\<close> is the state of a \<open>TA_ParamHolder\<close>; a
  function with an output parameter returns it beside its return code, and a function
  that changes the parameter holder returns the new state of the holder.
\<close>

record ('h, 'p) TA_Lib =
  TA_GetFuncHandle :: "string \<Rightarrow> TA_RetCode \<times> 'h"
  TA_GetFuncInfo :: "'h \<Rightarrow> TA_RetCode \<times> TA_FuncInfo"
  TA_ParamHolderAlloc :: "'h \<Rightarrow> TA_RetCode \<times> 'p"
  TA_GetOptInputParameterInfo :: "'h \<Rightarrow> nat \<Rightarrow> TA_RetCode \<times> TA_OptInputParameterInfo"
  TA_GetOutputParameterInfo :: "'h \<Rightarrow> nat \<Rightarrow> TA_RetCode \<times> TA_OutputParameterInfo"
  TA_GetInputParameterInfo :: "'h \<Rightarrow> nat \<Rightarrow> TA_RetCode \<times> TA_InputParameterInfo"
  TA_SetInputParamRealPtr :: "'p \<Rightarrow> nat \<Rightarrow> TA_Real ptr \<Rightarrow> TA_RetCode \<times> 'p"
  TA_SetInputParamIntegerPtr :: "'p \<Rightarrow> nat \<Rightarrow> TA_Integer ptr \<Rightarrow> TA_RetCode \<times> 'p"
  TA_SetInputParamPricePtr ::
    "'p \<Rightarrow> nat \<Rightarrow> TA_Real ptr \<Rightarrow> TA_Real ptr \<Rightarrow> TA_Real ptr \<Rightarrow> TA_Real ptr \<Rightarrow> TA_Real ptr
      \<Rightarrow> TA_Real ptr \<Rightarrow> TA_RetCode \<times> 'p"
  TA_SetOptInputParamReal :: "'p \<Rightarrow> nat \<Rightarrow> TA_Real \<Rightarrow> TA_RetCode \<times> 'p"
  TA_SetOptInputParamInteger :: "'p \<Rightarrow> nat \<Rightarrow> TA_Integer \<Rightarrow> TA_RetCode \<times> 'p"
  TA_GetLookback :: "'p \<Rightarrow> TA_RetCode \<times> TA_Integer"
  TA_SetOutputParamRealPtr :: "'p \<Rightarrow> nat \<Rightarrow> TA_Real ptr \<Rightarrow> TA_RetCode \<times> 'p"
  TA_SetOutputParamIntegerPtr :: "'p \<Rightarrow> nat \<Rightarrow> TA_Integer ptr \<Rightarrow> TA_RetCode \<times> 'p"
  TA_CallFunc :: "'p \<Rightarrow> TA_Integer \<Rightarrow> TA_Integer \<Rightarrow> TA_CallResult"

text \<open>\<open>if (call != TA_SUCCESS) panic();\<close> in the function \<open>fn\<close>.\<close>

definition succeed :: "string \<Rightarrow> TA_RetCode \<Rightarrow> abort + unit" where
  "succeed fn rc = (if rc \<noteq> TA_SUCCESS then panic fn else Inr ())"

subsection \<open>TA::Option and TA::Options\<close>

text \<open>
  \<open>class Option\<close> has two constructors, one for each \<open>OptionType\<close>; the member of the
  other type is never read, since \<open>getInteger\<close> and \<open>getReal\<close> verify the type first.
  \<open>Options\<close> is a vector of options.
\<close>

datatype OptionType = REAL | INTEGER

datatype TA_Option = Option_Integer string TA_Integer | Option_Real string TA_Real

fun Option_getName :: "TA_Option \<Rightarrow> string" where
  "Option_getName (Option_Integer nm v) = nm"
| "Option_getName (Option_Real nm v) = nm"

fun Option_type :: "TA_Option \<Rightarrow> OptionType" where
  "Option_type (Option_Integer nm v) = INTEGER"
| "Option_type (Option_Real nm v) = REAL"

fun getInteger :: "TA_Option \<Rightarrow> abort + TA_Integer" where
  "getInteger (Option_Integer nm v) = Inr v"
| "getInteger (Option_Real nm v) = Inl (Panic ''getInteger'' ''!(type == INTEGER)'')"

fun getReal :: "TA_Option \<Rightarrow> abort + TA_Real" where
  "getReal (Option_Real nm v) = Inr v"
| "getReal (Option_Integer nm v) = Inl (Panic ''getReal'' ''!(type == REAL)'')"

definition getDefault :: "TA_Option list" where
  "getDefault = []"

definition add_integer :: "TA_Option list \<Rightarrow> string \<Rightarrow> TA_Integer \<Rightarrow> TA_Option list" where
  "add_integer options nm v = options @ [Option_Integer nm v]"

definition add_real :: "TA_Option list \<Rightarrow> string \<Rightarrow> TA_Real \<Rightarrow> TA_Option list" where
  "add_real options nm v = options @ [Option_Real nm v]"

subsection \<open>The state of a TA object\<close>

record Output =
  output_type :: TA_OutputParameterType
  output_name :: string
  output_real :: RealSeries
  output_integer :: IntegerSeries

text \<open>
  \<open>inputFirst\<close> and \<open>inputSize\<close> are not initialised before \<open>setInput\<close> assigns them;
  \<open>Init\<close> gives them 0 here.
\<close>

record ('h, 'p) TA =
  funcHandle :: 'h
  funcInfo :: TA_FuncInfo
  params :: 'p
  optionMap :: "string \<rightharpoonup> nat"
  outputs :: "Output list"
  inputFirst :: unsigned
  inputSize :: unsigned

definition TA_getName :: "('h, 'p) TA \<Rightarrow> string" where
  "TA_getName ta = fi_name (funcInfo ta)"

definition getOutputs :: "('h, 'p) TA \<Rightarrow> Output list" where
  "getOutputs ta = outputs ta"

subsection \<open>TA::Init\<close>

text \<open>The first loop of \<open>Init\<close>, over the indices \<open>0 .. nbOptInput - 1\<close>.\<close>

fun Init_optionMap ::
  "('h, 'p) TA_Lib \<Rightarrow> 'h \<Rightarrow> nat list \<Rightarrow> (string \<rightharpoonup> nat) \<Rightarrow> abort + (string \<rightharpoonup> nat)"
where
  "Init_optionMap lib h [] m = Inr m"
| "Init_optionMap lib h (i # rest) m =
    (case TA_GetOptInputParameterInfo lib h i of (rc, info) \<Rightarrow>
       bindE (succeed ''Init'' rc)
         (\<lambda>_. Init_optionMap lib h rest (m(optinfo_paramName info \<mapsto> i))))"

text \<open>
  \<open>outputs.resize(nbOutput)\<close> and the second loop, which fills in type, name and the
  flags of both series of every output.
\<close>

fun Init_outputs :: "('h, 'p) TA_Lib \<Rightarrow> 'h \<Rightarrow> nat list \<Rightarrow> abort + Output list" where
  "Init_outputs lib h [] = Inr []"
| "Init_outputs lib h (i # rest) =
    (case TA_GetOutputParameterInfo lib h i of (rc, info) \<Rightarrow>
       bindE (succeed ''Init'' rc)
         (\<lambda>_. bindE (Init_outputs lib h rest)
           (\<lambda>outs. Inr (\<lparr>output_type = outinfo_type info,
                         output_name = outinfo_paramName info,
                         output_real = setFlags Series_new (outinfo_flags info),
                         output_integer = setFlags Series_new (outinfo_flags info)\<rparr> # outs))))"

definition Init :: "('h, 'p) TA_Lib \<Rightarrow> string \<Rightarrow> abort + ('h, 'p) TA" where
  "Init lib nm =
    (case TA_GetFuncHandle lib nm of (rc1, h) \<Rightarrow>
     bindE (succeed ''Init'' rc1) (\<lambda>_.
     case TA_GetFuncInfo lib h of (rc2, fi) \<Rightarrow>
     bindE (succeed ''Init'' rc2) (\<lambda>_.
     case TA_ParamHolderAlloc lib h of (rc3, p) \<Rightarrow>
     bindE (succeed ''Init'' rc3) (\<lambda>_.
     bindE (Init_optionMap lib h [0..<nbOptInput fi] Map.empty) (\<lambda>m.
     bindE (Init_outputs lib h [0..<nbOutput fi]) (\<lambda>outs.
     Inr \<lparr>funcHandle = h, funcInfo = fi, params = p, optionMap = m, outputs = outs,
          inputFirst = 0, inputSize = 0\<rparr>))))))"

subsection \<open>TA::setOption\<close>

definition setOption :: "('h, 'p) TA_Lib \<Rightarrow> ('h, 'p) TA \<Rightarrow> TA_Option \<Rightarrow> abort + ('h, 'p) TA" where
  "setOption lib ta option =
    (case optionMap ta (Option_getName option) of
       None \<Rightarrow> Inl (Panic ''setOption'' ''!(it != optionMap.end())'')
     | Some idx \<Rightarrow>
        (case TA_GetOptInputParameterInfo lib (funcHandle ta) idx of (rc, info) \<Rightarrow>
         bindE (succeed ''setOption'' rc) (\<lambda>_.
         if optinfo_type info = TA_OptInput_RealRange \<or> optinfo_type info = TA_OptInput_RealList
         then
           bindE (getReal option) (\<lambda>v.
           case TA_SetOptInputParamReal lib (params ta) idx v of (rc', p) \<Rightarrow>
           bindE (succeed ''setOption'' rc') (\<lambda>_. Inr (ta\<lparr>params := p\<rparr>)))
         else if optinfo_type info = TA_OptInput_IntegerRange
               \<or> optinfo_type info = TA_OptInput_IntegerList
         then
           bindE (getInteger option) (\<lambda>v.
           case TA_SetOptInputParamInteger lib (params ta) idx v of (rc', p) \<Rightarrow>
           bindE (succeed ''setOption'' rc') (\<lambda>_. Inr (ta\<lparr>params := p\<rparr>)))
         else Inr ta)))"

text \<open>\<open>BOOST_FOREACH(const Option &option, options) { setOption(option); }\<close>\<close>

fun setOptions :: "('h, 'p) TA_Lib \<Rightarrow> ('h, 'p) TA \<Rightarrow> TA_Option list \<Rightarrow> abort + ('h, 'p) TA" where
  "setOptions lib ta [] = Inr ta"
| "setOptions lib ta (option # rest) =
    bindE (setOption lib ta option) (\<lambda>ta'. setOptions lib ta' rest)"

subsection \<open>TA::setInput\<close>

text \<open>
  The input of the templates \<open>setInput\<close> and \<open>setInputHelper\<close> is a \<open>RealSeries\<close>, an
  \<open>IntegerSeries\<close> or a \<open>Candles\<close>; \<open>getFirst()\<close> and \<open>size()\<close> are those of its class.
\<close>

datatype 't TA_Input =
  RealInput RealSeries | IntegerInput IntegerSeries | CandlesInput "'t Candles"

fun Input_getFirst :: "'t TA_Input \<Rightarrow> TA_Integer" where
  "Input_getFirst (RealInput s) = getFirst s"
| "Input_getFirst (IntegerInput s) = getFirst s"
| "Input_getFirst (CandlesInput c) = Candles_getFirst c"

fun Input_size :: "'t TA_Input \<Rightarrow> nat" where
  "Input_size (RealInput s) = Series_size s"
| "Input_size (IntegerInput s) = Series_size s"
| "Input_size (CandlesInput c) = Candles_size c"

text \<open>\<open>&input[inputFirst]\<close>, with \<open>inputFirst\<close> an \<open>unsigned\<close>.\<close>

definition ptr_at :: "'a Series \<Rightarrow> unsigned \<Rightarrow> 'a ptr" where
  "ptr_at s i = (elems s, int (unat i))"

fun setInputHelper ::
  "('h, 'p) TA_Lib \<Rightarrow> ('h, 'p) TA \<Rightarrow> nat \<Rightarrow> 't TA_Input \<Rightarrow> abort + ('h, 'p) TA"
where
  "setInputHelper lib ta idx (RealInput input) =
    (case TA_GetInputParameterInfo lib (funcHandle ta) idx of (rc, info) \<Rightarrow>
     bindE (succeed ''setInputHelper'' rc) (\<lambda>_.
     bindE (verify ''setInputHelper'' ''info->type == TA_Input_Real''
              (ininfo_type info = TA_Input_Real)) (\<lambda>_.
     case TA_SetInputParamRealPtr lib (params ta) idx (ptr_at input (inputFirst ta)) of
       (rc', p) \<Rightarrow>
     bindE (succeed ''setInputHelper'' rc') (\<lambda>_. Inr (ta\<lparr>params := p\<rparr>)))))"
| "setInputHelper lib ta idx (IntegerInput input) =
    (case TA_GetInputParameterInfo lib (funcHandle ta) idx of (rc, info) \<Rightarrow>
     bindE (succeed ''setInputHelper'' rc) (\<lambda>_.
     bindE (verify ''setInputHelper'' ''info->type == TA_Input_Integer''
              (ininfo_type info = TA_Input_Integer)) (\<lambda>_.
     case TA_SetInputParamIntegerPtr lib (params ta) idx (ptr_at input (inputFirst ta)) of
       (rc', p) \<Rightarrow>
     bindE (succeed ''setInputHelper'' rc') (\<lambda>_. Inr (ta\<lparr>params := p\<rparr>)))))"
| "setInputHelper lib ta idx (CandlesInput input) =
    (case TA_GetInputParameterInfo lib (funcHandle ta) idx of (rc, info) \<Rightarrow>
     bindE (succeed ''setInputHelper'' rc) (\<lambda>_.
     bindE (verify ''setInputHelper'' ''info->type == TA_Input_Price''
              (ininfo_type info = TA_Input_Price)) (\<lambda>_.
     case TA_SetInputParamPricePtr lib (params ta) idx
            (ptr_at (getOpen input) (inputFirst ta))
            (ptr_at (getHigh input) (inputFirst ta))
            (ptr_at (getLow input) (inputFirst ta))
            (ptr_at (getClose input) (inputFirst ta))
            (ptr_at (getVolume input) (inputFirst ta))
            (ptr_at (getOpenInterest input) (inputFirst ta)) of
       (rc', p) \<Rightarrow>
     bindE (succeed ''setInputHelper'' rc') (\<lambda>_. Inr (ta\<lparr>params := p\<rparr>)))))"

text \<open>
  \<open>setInput(input)\<close>. The assignments convert \<open>TA_Integer\<close> to \<open>unsigned\<close> (the same
  32 bits) and \<open>size_t\<close> to \<open>unsigned\<close> (the size modulo \<open>2 ^ 32\<close>).
\<close>

definition setInput :: "('h, 'p) TA_Lib \<Rightarrow> ('h, 'p) TA \<Rightarrow> 't TA_Input \<Rightarrow> abort + ('h, 'p) TA" where
  "setInput lib ta input =
    bindE (verify ''setInput'' ''funcInfo->nbInput == 1'' (nbInput (funcInfo ta) = 1)) (\<lambda>_.
    setInputHelper lib
      (ta\<lparr>inputFirst := Input_getFirst input, inputSize := of_nat (Input_size input)\<rparr>)
      0 input)"

text \<open>
  \<open>setInput(input1, input2)\<close>. \<open>std::max\<close> compares the two \<open>TA_Integer\<close> as signed
  integers, \<open>std::min\<close> the two \<open>size_t\<close>. The \<open>return *this;\<close> that ends the function
  (whose return type is \<open>void\<close>) has no effect on the object and is left out.
\<close>

definition std_max :: "TA_Integer \<Rightarrow> TA_Integer \<Rightarrow> TA_Integer" where
  "std_max a b = (if sint a < sint b then b else a)"

definition setInput2 ::
  "('h, 'p) TA_Lib \<Rightarrow> ('h, 'p) TA \<Rightarrow> 't TA_Input \<Rightarrow> 'u TA_Input \<Rightarrow> abort + ('h, 'p) TA"
where
  "setInput2 lib ta input1 input2 =
    bindE (verify ''setInput'' ''funcInfo->nbInput == 2'' (nbInput (funcInfo ta) = 2)) (\<lambda>_.
    bindE (setInputHelper lib
             (ta\<lparr>inputFirst := std_max (Input_getFirst input1) (Input_getFirst input2),
                 inputSize := of_nat (min (Input_size input1) (Input_size input2))\<rparr>)
             0 input1) (\<lambda>ta'.
    setInputHelper lib ta' 1 input2))"

subsection \<open>TA::update\<close>

text \<open>
  \<open>&outputs[i].real[outputFirst]\<close>, with \<open>outputFirst\<close> a \<open>TA_Integer\<close>, and the effect
  on a vector of the values that the library writes from such a pointer on. A write
  outside the vector is undefined behaviour in C++; the model drops it.
\<close>

definition out_ptr_at :: "'a Series \<Rightarrow> TA_Integer \<Rightarrow> 'a ptr" where
  "out_ptr_at s i = (elems s, sint i)"

definition store :: "'a Series \<Rightarrow> TA_Integer \<Rightarrow> 'a list \<Rightarrow> 'a Series" where
  "store s i ws =
    s\<lparr>elems :=
        map (\<lambda>k. if sint i \<le> int k \<and> int k < sint i + int (length ws)
                 then ws ! nat (int k - sint i) else elems s ! k)
            [0..<length (elems s)]\<rparr>"

text \<open>
  The loop of \<open>update\<close> over the outputs, from index \<open>i\<close> on. The \<open>default\<close> branch
  of its \<open>switch\<close> is for a type that is neither \<open>TA_Output_Real\<close> nor
  \<open>TA_Output_Integer\<close>; the enumeration has no such value.
\<close>

fun update_outputs ::
  "('h, 'p) TA_Lib \<Rightarrow> TA_Integer \<Rightarrow> unsigned \<Rightarrow> nat \<Rightarrow> Output list \<Rightarrow> 'p
    \<Rightarrow> abort + (Output list \<times> 'p)"
where
  "update_outputs lib outputFirst inSize i [] p = Inr ([], p)"
| "update_outputs lib outputFirst inSize i (out # rest) p =
    (case output_type out of
       TA_Output_Real \<Rightarrow>
         (let r = resize (setFirst (output_real out) outputFirst) (unat inSize) in
          case TA_SetOutputParamRealPtr lib p i (out_ptr_at r outputFirst) of (rc, p') \<Rightarrow>
          bindE (succeed ''update'' rc) (\<lambda>_.
          bindE (update_outputs lib outputFirst inSize (Suc i) rest p') (\<lambda>(outs, p'').
          Inr (out\<lparr>output_real := r\<rparr> # outs, p''))))
     | TA_Output_Integer \<Rightarrow>
         (let r = resize (setFirst (output_integer out) outputFirst) (unat inSize) in
          case TA_SetOutputParamIntegerPtr lib p i (out_ptr_at r outputFirst) of (rc, p') \<Rightarrow>
          bindE (succeed ''update'' rc) (\<lambda>_.
          bindE (update_outputs lib outputFirst inSize (Suc i) rest p') (\<lambda>(outs, p'').
          Inr (out\<lparr>output_integer := r\<rparr> # outs, p'')))))"

text \<open>The values written by \<open>TA_CallFunc\<close>, stored into the output with index \<open>i\<close>.\<close>

definition written :: "TA_CallResult \<Rightarrow> TA_Integer \<Rightarrow> nat \<Rightarrow> Output \<Rightarrow> Output" where
  "written res outputFirst i out =
    (case output_type out of
       TA_Output_Real \<Rightarrow>
         out\<lparr>output_real := store (output_real out) outputFirst (written_real res i)\<rparr>
     | TA_Output_Integer \<Rightarrow>
         out\<lparr>output_integer := store (output_integer out) outputFirst (written_integer res i)\<rparr>)"

definition update :: "('h, 'p) TA_Lib \<Rightarrow> ('h, 'p) TA \<Rightarrow> abort + ('h, 'p) TA" where
  "update lib ta =
    (case TA_GetLookback lib (params ta) of (rc, lookback) \<Rightarrow>
     bindE (succeed ''update'' rc) (\<lambda>_.
     let outputFirst = inputFirst ta + lookback in
     bindE (update_outputs lib outputFirst (inputSize ta) 0 (outputs ta) (params ta))
       (\<lambda>(outs, p).
     let res = TA_CallFunc lib p 0 (inputSize ta - inputFirst ta - 1) in
     bindE (succeed ''update'' (retCode res)) (\<lambda>_.
     bindE (verify ''update'' ''outBegIdx == lookback'' (outBegIdx res = lookback)) (\<lambda>_.
     bindE (verify ''update'' ''outNbElement == inputSize - outputFirst''
              (outNbElement res = inputSize ta - outputFirst)) (\<lambda>_.
     Inr (ta\<lparr>params := p,
             outputs := map (\<lambda>(i, out). written res outputFirst i out)
                          (zip [0..<length outs] outs)\<rparr>)))))))"

subsection \<open>The constructors\<close>

text \<open>
  \<open>TA(name, input, options)\<close> and \<open>TA(name, input1, input2, options)\<close>. The part of
  each before its last statement, \<open>update()\<close>, has a name of its own.
\<close>

definition TA1_bound ::
  "('h, 'p) TA_Lib \<Rightarrow> string \<Rightarrow> 't TA_Input \<Rightarrow> TA_Option list \<Rightarrow> abort + ('h, 'p) TA" where
  "TA1_bound lib nm input options =
    bindE (Init lib nm) (\<lambda>ta.
    bindE (setOptions lib ta options) (\<lambda>ta'.
    setInput lib ta' input))"

definition TA1 ::
  "('h, 'p) TA_Lib \<Rightarrow> string \<Rightarrow> 't TA_Input \<Rightarrow> TA_Option list \<Rightarrow> abort + ('h, 'p) TA" where
  "TA1 lib nm input options = bindE (TA1_bound lib nm input options) (update lib)"

definition TA2_bound ::
  "('h, 'p) TA_Lib \<Rightarrow> string \<Rightarrow> 't TA_Input \<Rightarrow> 'u TA_Input \<Rightarrow> TA_Option list
    \<Rightarrow> abort + ('h, 'p) TA" where
  "TA2_bound lib nm input1 input2 options =
    bindE (Init lib nm) (\<lambda>ta.
    bindE (setOptions lib ta options) (\<lambda>ta'.
    setInput2 lib ta' input1 input2))"

definition TA2 ::
  "('h, 'p) TA_Lib \<Rightarrow> string \<Rightarrow> 't TA_Input \<Rightarrow> 'u TA_Input \<Rightarrow> TA_Option list
    \<Rightarrow> abort + ('h, 'p) TA" where
  "TA2 lib nm input1 input2 options = bindE (TA2_bound lib nm input1 input2 options) (update lib)"

text \<open>
  Of the two series of an output only the one that \<open>type\<close> names is valid; these
  are its \<open>first\<close> and its size.
\<close>

definition Output_first :: "Output \<Rightarrow> TA_Integer" where
  "Output_first out =
    (case output_type out of
       TA_Output_Real \<Rightarrow> getFirst (output_real out)
     | TA_Output_Integer \<Rightarrow> getFirst (output_integer out))"

definition Output_size :: "Output \<Rightarrow> nat" where
  "Output_size out =
    (case output_type out of
       TA_Output_Real \<Rightarrow> Series_size (output_real out)
     | TA_Output_Integer \<Rightarrow> Series_size (output_integer out))"

section \<open>The chart emitter (ta++-plot.h)\<close>

subsection \<open>GnuplotPane\<close>

text \<open>
  A pane collects text in three string streams. Only \<open>data\<close> is modelled, as the list
  of the lines written to it: a row is the index \<open>i\<close> and the tab-separated values
  after it (the decimal text of a \<open>double\<close> is not modelled), and \<open>DataEnd\<close> is the
  line \<open>e\<close> that ends a block. \<open>head\<close>, \<open>cmd\<close> and the flag \<open>first\<close> of \<open>input()\<close> are left
  out. \<open>getName\<close> and \<open>logScale\<close> are the members \<open>name\<close> and \<open>log\<close> of the base
  class \<open>Pane\<close>.
\<close>

datatype data_line = DataRow nat "TA_Real list" | DataEnd

record GnuplotPane =
  getName :: string
  logScale :: bool
  data :: "data_line list"
  ratio :: real
  offset :: real

definition GnuplotPane_new :: GnuplotPane where
  "GnuplotPane_new = \<lparr>getName = [], logScale = False, data = [], ratio = 1, offset = 0\<rparr>"




text \<open>
  The loop \<open>for (size_t i = 0; i < series.size(); i++) { if (skip) continue; data << row; }\<close>
  that \<open>drawCandles\<close> and \<open>drawVolumes\<close> each run twice: \<open>n\<close> is \<open>series.size()\<close>,
  \<open>skip i\<close> the condition of the \<open>continue\<close>, \<open>row i\<close> the line written.
\<close>

function emit_rows ::
  "nat \<Rightarrow> (nat \<Rightarrow> bool) \<Rightarrow> (nat \<Rightarrow> data_line) \<Rightarrow> nat \<Rightarrow> data_line list \<Rightarrow> data_line list"
where
  "emit_rows n skip row i d =
    (if i < n then
       (if skip i then emit_rows n skip row (Suc i) d
        else emit_rows n skip row (Suc i) (d @ [row i]))
     else d)"
  by pat_completeness auto
termination
  by (relation "measure (\<lambda>(n, skip, row, i, d). n - i)") auto

declare emit_rows.simps [simp del]

text \<open>
  \<open>operator[]\<close> of the vector, which does not check its index; every use below reads
  inside the vector when the members of the bundle have equal length.
\<close>

definition Series_at :: "'a Series \<Rightarrow> nat \<Rightarrow> 'a" where
  "Series_at s i = elems s ! i"

definition candle_row :: "'t Candles \<Rightarrow> nat \<Rightarrow> data_line" where
  "candle_row series i =
    DataRow i [Series_at (getOpen series) i, Series_at (getHigh series) i, Series_at (getLow series) i,
               Series_at (getClose series) i]"

definition volume_row :: "'t Candles \<Rightarrow> nat \<Rightarrow> data_line" where
  "volume_row series i = DataRow i [Series_at (getVolume series) i]"

definition drawCandles :: "GnuplotPane \<Rightarrow> 't Candles \<Rightarrow> bool \<Rightarrow> GnuplotPane" where
  "drawCandles pane series bars =
    (let d1 = emit_rows (Candles_size series)
                (\<lambda>i. Series_at (getOpen series) i > Series_at (getClose series) i)
                (candle_row series) 0 (data pane);
         d2 = d1 @ [DataEnd];
         d3 = emit_rows (Candles_size series)
                (\<lambda>i. Series_at (getOpen series) i \<le> Series_at (getClose series) i)
                (candle_row series) 0 d2
     in pane\<lparr>data := d3 @ [DataEnd]\<rparr>)"

definition drawVolumes :: "GnuplotPane \<Rightarrow> 't Candles \<Rightarrow> GnuplotPane" where
  "drawVolumes pane series =
    (let d1 = emit_rows (Candles_size series)
                (\<lambda>i. Series_at (getOpen series) i > Series_at (getClose series) i)
                (volume_row series) 0 (data pane);
         d2 = d1 @ [DataEnd];
         d3 = emit_rows (Candles_size series)
                (\<lambda>i. Series_at (getOpen series) i \<le> Series_at (getClose series) i)
                (volume_row series) 0 d2
     in pane\<lparr>data := d3 @ [DataEnd]\<rparr>)"

text \<open>
  The two blocks in the words of the specification: the indices below \<open>series.size()\<close>
  whose candle has \<open>open \<le> close\<close> (drawn green), and the others (drawn red).
\<close>

definition green_indices :: "'t Candles \<Rightarrow> nat list" where
  "green_indices series =
    filter (\<lambda>i. Series_at (getOpen series) i \<le> Series_at (getClose series) i)
      [0..<Candles_size series]"

definition red_indices :: "'t Candles \<Rightarrow> nat list" where
  "red_indices series =
    filter (\<lambda>i. \<not> Series_at (getOpen series) i \<le> Series_at (getClose series) i)
      [0..<Candles_size series]"

text \<open>The bundle of the example file, and a chart of it with a third pane.\<close>

definition example_candles :: "(nat \<times> nat \<times> nat) Candles" where
  "example_candles = append_rows example_str2time Candles_empty example_rows"

subsection \<open>GnuplotChart\<close>









section \<open>Verified properties\<close>

subsection \<open>Candle merge\<close>


subsection \<open>The file loader\<close>

lemma append_rows_Nil: "append_rows s2t c [] = c"
  by (simp add: append_rows_def append_column_def)

lemma append_rows_Cons:
  "s2t (buf r) = Some t \<Longrightarrow> append_rows s2t (push_back_candle c t r) rs = append_rows s2t c (r # rs)"
  by (simp add: append_rows_def append_column_def push_back_candle_def push_back_def row_time_def)

lemma LoadFromFile_loop_sorted:
  fixes str2time :: "string \<Rightarrow> ('t::linorder) option"
  assumes "\<forall>r\<in>set rows. str2time (buf r) \<noteq> None"
      and "sorted (map (row_time str2time) rows)"
  shows "LoadFromFile_loop str2time begin end rows c
          = Return (append_rows str2time c (filter (in_window str2time begin end) rows))"
  using assms
proof (induction rows arbitrary: c)
  case Nil
  then show ?case by (simp add: append_rows_Nil)
next
  case (Cons r rest)
  from Cons.prems(1) obtain t where t: "str2time (buf r) = Some t" by auto
  have rt: "row_time str2time r = t" using t by (simp add: row_time_def)
  have later: "\<forall>x\<in>set rest. t \<le> row_time str2time x"
    using Cons.prems(2) rt by auto
  have IH: "\<And>c. LoadFromFile_loop str2time begin end rest c
          = Return (append_rows str2time c (filter (in_window str2time begin end) rest))"
    using Cons.IH Cons.prems by simp
  have w: "in_window str2time begin end r \<longleftrightarrow> begin \<le> t \<and> t < end"
    using rt by (simp add: in_window_def)
  show ?case
  proof (cases "t < begin")
    case True
    then have "\<not> in_window str2time begin end r" using w by auto
    then show ?thesis using t True IH by simp
  next
    case nb: False
    show ?thesis
    proof (cases "end \<le> t")
      case True
      have "filter (in_window str2time begin end) rest = []"
        using later True by (auto simp: filter_empty_conv in_window_def)
      moreover have "\<not> in_window str2time begin end r" using w True by auto
      ultimately show ?thesis using t nb True by (simp add: append_rows_Nil)
    next
      case False
      then have "in_window str2time begin end r" using w nb by auto
      then show ?thesis using t nb False IH by (simp add: append_rows_Cons)
    qed
  qed
qed

lemma LoadFromFile_loop_stops:
  fixes str2time :: "string \<Rightarrow> ('t::linorder) option"
  assumes "\<forall>x\<in>set pre. str2time (buf x) \<noteq> None \<and> row_time str2time x < end"
      and "str2time (buf r) \<noteq> None" and "end \<le> row_time str2time r" and "begin < end"
  shows "LoadFromFile_loop str2time begin end (pre @ r # post) c
          = LoadFromFile_loop str2time begin end (pre @ [r]) c"
  using assms
proof (induction pre arbitrary: c)
  case Nil
  then show ?case by (auto simp: row_time_def)
next
  case (Cons x pre)
  then show ?case by (auto simp: row_time_def)
qed


text \<open>
  C3. For every file whose date tokens all parse and whose rows are in chronological
  order, and every window, \<open>LoadFromFile\<close> appends to the seven members exactly the
  rows with \<open>begin \<le> time < end\<close>, in file order. When \<open>begin < end\<close> it stops scanning
  at the first row whose time is \<open>\<ge> end\<close>: whatever follows that row in the file, even
  tokens that are no dates, is never read. The witness is the example of the
  specification: of three rows dated 2008-01-01/02/03, the window from 2008-01-02 to
  2008-01-04 yields exactly the last two, and every window that ends at 2008-01-01
  yields none.
\<close>

theorem LoadFromFile_window:
  fixes str2time :: "string \<Rightarrow> ('t::linorder) option"
  assumes parses: "\<forall>r\<in>set rows. str2time (buf r) \<noteq> None"
      and ordered: "sorted (map (row_time str2time) rows)"
  shows "LoadFromFile str2time (Some rows) begin end c
           = Inr (Return (append_rows str2time c (filter (in_window str2time begin end) rows)))
       \<and> (begin < end \<longrightarrow>
            (\<forall>pre r post rest. rows = pre @ r # post
                \<and> (\<forall>x\<in>set pre. row_time str2time x < end) \<and> end \<le> row_time str2time r
              \<longrightarrow> LoadFromFile str2time (Some (pre @ r # rest)) begin end c
                    = LoadFromFile str2time (Some (pre @ [r])) begin end c))"
proof (intro conjI impI allI)
  show "LoadFromFile str2time (Some rows) begin end c
           = Inr (Return (append_rows str2time c (filter (in_window str2time begin end) rows)))"
    using LoadFromFile_loop_sorted [OF parses ordered] by (simp add: LoadFromFile_def)
next
  fix pre r post rest
  assume be: "begin < end"
    and split: "rows = pre @ r # post \<and> (\<forall>x\<in>set pre. row_time str2time x < end)
        \<and> end \<le> row_time str2time r"
  have "\<forall>x\<in>set pre. str2time (buf x) \<noteq> None \<and> row_time str2time x < end"
    using parses split by auto
  moreover have "str2time (buf r) \<noteq> None" using parses split by auto
  ultimately have "LoadFromFile_loop str2time begin end (pre @ r # rest) c
          = LoadFromFile_loop str2time begin end (pre @ [r]) c"
    using split be by (intro LoadFromFile_loop_stops) auto
  then show "LoadFromFile str2time (Some (pre @ r # rest)) begin end c
                    = LoadFromFile str2time (Some (pre @ [r])) begin end c"
    by (simp add: LoadFromFile_def)
qed

theorem LoadFromFile_window_witness:
  "LoadFromFile example_str2time (Some example_rows) (2008, 1, 2) (2008, 1, 4) Candles_empty
     = Inr (Return (append_rows example_str2time Candles_empty (drop 1 example_rows)))
   \<and> (let c = append_rows example_str2time Candles_empty (drop 1 example_rows)
      in elems (getTime c) = [(2008, 1, 2), (2008, 1, 3)] \<and> elems (getOpen c) = [11, 12]
       \<and> elems (getHigh c) = [13, 12] \<and> elems (getLow c) = [10, 8]
       \<and> elems (getClose c) = [12, 9] \<and> elems (getVolume c) = [200, 300]
       \<and> elems (getOpenInterest c) = [0, 0])
   \<and> (\<forall>begin. LoadFromFile example_str2time (Some example_rows) begin (2008, 1, 1) Candles_empty
          = Inr (Return Candles_empty))
   \<and> LoadFromFile example_str2time
        (Some (take 2 example_rows @ [\<lparr>buf = ''no date'', row_open = 0, row_high = 0,
           row_low = 0, row_close = 0, row_volume = 0, row_openInterest = 0\<rparr>]))
        (2008, 1, 1) (2008, 1, 2) Candles_empty
      = LoadFromFile example_str2time (Some (take 2 example_rows)) (2008, 1, 1) (2008, 1, 2)
          Candles_empty"
proof -
  have parses: "\<forall>r\<in>set example_rows. example_str2time (buf r) \<noteq> None"
    by (simp add: example_rows_def example_str2time_def)
  have ordered: "sorted (map (row_time example_str2time) example_rows)"
    by (simp add: example_rows_def example_str2time_def row_time_def)
  note win = LoadFromFile_window [OF parses ordered]
  have f1: "filter (in_window example_str2time (2008, 1, 2) (2008, 1, 4)) example_rows
             = drop 1 example_rows"
    by (simp add: example_rows_def example_str2time_def row_time_def in_window_def)
  have f2: "\<And>begin. filter (in_window example_str2time begin (2008, 1, 1)) example_rows = []"
    by (simp add: example_rows_def example_str2time_def row_time_def in_window_def)
  have a: "LoadFromFile example_str2time (Some example_rows) (2008, 1, 2) (2008, 1, 4) Candles_empty
     = Inr (Return (append_rows example_str2time Candles_empty (drop 1 example_rows)))"
    using win [of "(2008, 1, 2)" "(2008, 1, 4)" Candles_empty] f1 by simp
  have b: "let c = append_rows example_str2time Candles_empty (drop 1 example_rows)
      in elems (getTime c) = [(2008, 1, 2), (2008, 1, 3)] \<and> elems (getOpen c) = [11, 12]
       \<and> elems (getHigh c) = [13, 12] \<and> elems (getLow c) = [10, 8]
       \<and> elems (getClose c) = [12, 9] \<and> elems (getVolume c) = [200, 300]
       \<and> elems (getOpenInterest c) = [0, 0]"
    by (simp add: append_rows_def append_column_def Candles_empty_def Series_new_def
        example_rows_def example_str2time_def row_time_def)
  have c: "\<forall>begin. LoadFromFile example_str2time (Some example_rows) begin (2008, 1, 1) Candles_empty
          = Inr (Return Candles_empty)"
    using win [of _ "(2008, 1, 1)" Candles_empty] f2 by (simp add: append_rows_Nil)
  have d: "LoadFromFile example_str2time
        (Some (take 2 example_rows @ [\<lparr>buf = ''no date'', row_open = 0, row_high = 0,
           row_low = 0, row_close = 0, row_volume = 0, row_openInterest = 0\<rparr>]))
        (2008, 1, 1) (2008, 1, 2) Candles_empty
      = LoadFromFile example_str2time (Some (take 2 example_rows)) (2008, 1, 1) (2008, 1, 2)
          Candles_empty"
  proof -
    have lt: "((2008::nat), (1::nat), (1::nat)) < (2008, 1, 2)" by simp
    have "example_rows = take 1 example_rows @ (example_rows ! 1) # drop 2 example_rows
        \<and> (\<forall>x\<in>set (take 1 example_rows). row_time example_str2time x < (2008, 1, 2))
        \<and> (2008, 1, 2) \<le> row_time example_str2time (example_rows ! 1)"
      by (simp add: example_rows_def example_str2time_def row_time_def)
    then have "LoadFromFile example_str2time
        (Some (take 1 example_rows @ (example_rows ! 1) # [\<lparr>buf = ''no date'', row_open = 0, row_high = 0,
           row_low = 0, row_close = 0, row_volume = 0, row_openInterest = 0\<rparr>]))
        (2008, 1, 1) (2008, 1, 2) Candles_empty
      = LoadFromFile example_str2time (Some (take 1 example_rows @ [example_rows ! 1])) (2008, 1, 1) (2008, 1, 2)
          Candles_empty"
      using win [of "(2008, 1, 1)" "(2008, 1, 2)" Candles_empty] lt by blast
    then show ?thesis by (simp add: example_rows_def)
  qed
  from a b c d show ?thesis by blast
qed

subsection \<open>The bundle invariant\<close>

lemma push_back_candle_aligned:
  "Candles_aligned c \<Longrightarrow> Candles_aligned (push_back_candle c t r)"
  by (simp add: Candles_aligned_def push_back_candle_def push_back_def Series_size_def)

lemma push_back_candle_synced:
  "Candles_synced c \<Longrightarrow> Candles_synced (push_back_candle c t r)"
  by (simp add: Candles_synced_def push_back_candle_def push_back_def Candles_getFirst_def
      Candles_getFlags_def)

lemma state_of_simps:
  "state_of (Return c) = c" "state_of (Throw what c) = c"
  by (simp_all add: state_of_def)

lemma LoadFromFile_loop_inv:
  fixes str2time :: "string \<Rightarrow> ('t::linorder) option"
  assumes "Candles_aligned c \<and> Candles_synced c"
  shows "Candles_aligned (state_of (LoadFromFile_loop str2time begin end rows c))
       \<and> Candles_synced (state_of (LoadFromFile_loop str2time begin end rows c))"
  using assms
proof (induction rows arbitrary: c)
  case Nil
  have "LoadFromFile_loop str2time begin end [] c = Return c"
    by simp
  then show ?case using Nil.prems by (simp only: state_of_simps)
next
  case (Cons r rest)
  let ?here = "LoadFromFile_loop str2time begin end (r # rest) c"
  show ?case
  proof (cases "str2time (buf r)")
    case None
    then have "?here = Throw ''str2time'' c"
      by simp
    then show ?thesis using Cons.prems by (simp only: state_of_simps)
  next
    case (Some t)
    have pushed: "Candles_aligned (push_back_candle c t r) \<and> Candles_synced (push_back_candle c t r)"
    proof
      show "Candles_aligned (push_back_candle c t r)"
        using Cons.prems by (intro push_back_candle_aligned) simp
      show "Candles_synced (push_back_candle c t r)"
        using Cons.prems by (intro push_back_candle_synced) simp
    qed
    show ?thesis
    proof (cases "t < begin")
      case True
      then have "?here = LoadFromFile_loop str2time begin end rest c"
        using Some by simp
      then show ?thesis using Cons.IH [OF Cons.prems] by (simp only:)
    next
      case False
      show ?thesis
      proof (cases "end \<le> t")
        case True
        then have "?here = Return c"
          using Some False by simp
        then show ?thesis using Cons.prems by (simp only: state_of_simps)
      next
        case nstop: False
        then have "?here = LoadFromFile_loop str2time begin end rest (push_back_candle c t r)"
          using Some False by simp
        then show ?thesis using Cons.IH [OF pushed] by (simp only:)
      qed
    qed
  qed
qed

lemma Candles_setFirst_inv:
  "Candles_aligned c \<Longrightarrow> Candles_synced c \<Longrightarrow>
    Candles_aligned (Candles_setFirst c f) \<and> Candles_synced (Candles_setFirst c f)"
  by (simp add: Candles_aligned_def Candles_synced_def Candles_setFirst_def setFirst_def
      Series_size_def Candles_getFirst_def Candles_getFlags_def)

lemma Candles_setFlags_inv:
  "Candles_aligned c \<Longrightarrow> Candles_synced c \<Longrightarrow>
    Candles_aligned (Candles_setFlags c f) \<and> Candles_synced (Candles_setFlags c f)"
  by (simp add: Candles_aligned_def Candles_synced_def Candles_setFlags_def setFlags_def
      Series_size_def Candles_getFirst_def Candles_getFlags_def)

lemma Candles_empty_inv: "Candles_aligned Candles_empty \<and> Candles_synced Candles_empty"
  by (simp add: Candles_aligned_def Candles_synced_def Candles_empty_def Series_new_def
      Series_size_def Candles_getFirst_def Candles_getFlags_def)

lemma run_inv:
  fixes str2time :: "string \<Rightarrow> ('t::linorder) option"
  assumes "Candles_aligned c \<and> Candles_synced c" and "run str2time ops c = Inr c'"
  shows "Candles_aligned c' \<and> Candles_synced c'"
  using assms
proof (induction ops arbitrary: c)
  case Nil
  then show ?case by simp
next
  case (Cons op ops)
  show ?case
  proof (cases op)
    case (OpLoadFromFile fl b e)
    show ?thesis
    proof (cases fl)
      case None
      then show ?thesis using Cons.prems OpLoadFromFile by (simp add: LoadFromFile_def)
    next
      case (Some rows)
      let ?r = "LoadFromFile_loop str2time b e rows c"
      have inv: "Candles_aligned (state_of ?r) \<and> Candles_synced (state_of ?r)"
        using LoadFromFile_loop_inv [OF Cons.prems(1)] .
      have "run str2time ops (state_of ?r) = Inr c'"
        using Cons.prems(2) OpLoadFromFile Some
        by (cases ?r) (simp_all add: LoadFromFile_def state_of_simps)
      then show ?thesis using Cons.IH inv by blast
    qed
  next
    case (OpSetFirst f)
    have "run str2time ops (Candles_setFirst c f) = Inr c'"
      using Cons.prems(2) OpSetFirst by simp
    moreover have "Candles_aligned (Candles_setFirst c f) \<and> Candles_synced (Candles_setFirst c f)"
      using Cons.prems(1) Candles_setFirst_inv by blast
    ultimately show ?thesis using Cons.IH by blast
  next
    case (OpSetFlags f)
    have "run str2time ops (Candles_setFlags c f) = Inr c'"
      using Cons.prems(2) OpSetFlags by simp
    moreover have "Candles_aligned (Candles_setFlags c f) \<and> Candles_synced (Candles_setFlags c f)"
      using Cons.prems(1) Candles_setFlags_inv by blast
    ultimately show ?thesis using Cons.IH by blast
  qed
qed

lemma Candles_new_inv:
  fixes str2time :: "string \<Rightarrow> ('t::linorder) option"
  assumes "Candles_new str2time file begin end = Inr c"
  shows "Candles_aligned c \<and> Candles_synced c"
proof (cases "file")
  case None
  then show ?thesis using assms by (simp add: Candles_new_def LoadFromFile_def)
next
  case (Some rows)
  let ?r = "LoadFromFile_loop str2time begin end rows Candles_empty"
  have "Candles_aligned (state_of ?r) \<and> Candles_synced (state_of ?r)"
    using LoadFromFile_loop_inv [OF Candles_empty_inv] .
  moreover have "state_of ?r = c" using assms Some
    by (cases ?r) (simp_all add: Candles_new_def LoadFromFile_def state_of_simps)
  ultimately show ?thesis by simp
qed

text \<open>
  C4. Whatever sequence of \<open>LoadFromFile\<close>, \<open>setFirst\<close> and \<open>setFlags\<close> calls follows the
  construction of a bundle, at every point of it the seven member series have equal
  length and all seven members and the bundle hold the same \<open>first\<close> and the same
  \<open>flags\<close>; after \<open>setFirst(f)\<close> that shared \<open>first\<close> is \<open>f\<close>, and after
  \<open>setFlags(g)\<close> the shared \<open>flags\<close> is \<open>g\<close>.
\<close>

theorem Candles_invariant:
  fixes str2time :: "string \<Rightarrow> ('t::linorder) option"
  assumes "Candles_new str2time file begin end = Inr c0"
      and "run str2time ops c0 = Inr c"
  shows "Candles_aligned c \<and> Candles_synced c
       \<and> Candles_aligned (Candles_setFirst c f) \<and> Candles_synced (Candles_setFirst c f)
       \<and> Candles_getFirst (Candles_setFirst c f) = f
       \<and> Candles_aligned (Candles_setFlags c g) \<and> Candles_synced (Candles_setFlags c g)
       \<and> Candles_getFlags (Candles_setFlags c g) = g"
proof -
  have inv0: "Candles_aligned c0 \<and> Candles_synced c0"
    using assms(1) by (rule Candles_new_inv)
  have inv: "Candles_aligned c \<and> Candles_synced c"
    using inv0 assms(2) by (rule run_inv)
  have "Candles_getFirst (Candles_setFirst c f) = f"
    by (simp add: Candles_getFirst_def Candles_setFirst_def setFirst_def)
  moreover have "Candles_getFlags (Candles_setFlags c g) = g"
    by (simp add: Candles_getFlags_def Candles_setFlags_def setFlags_def)
  moreover have "Candles_aligned (Candles_setFirst c f) \<and> Candles_synced (Candles_setFirst c f)"
    using inv by (intro Candles_setFirst_inv) simp_all
  moreover have "Candles_aligned (Candles_setFlags c g) \<and> Candles_synced (Candles_setFlags c g)"
    using inv by (intro Candles_setFlags_inv) simp_all
  ultimately show ?thesis using inv by simp
qed

theorem Candles_invariant_witness:
  "\<exists>c0 c. Candles_new example_str2time (Some example_rows) (2008, 1, 2) (2008, 1, 4) = Inr c0
     \<and> run example_str2time example_ops c0 = Inr c
     \<and> Candles_size c = 3 \<and> Candles_getFirst c = 1 \<and> Candles_getFlags c = 16
     \<and> Candles_aligned c \<and> Candles_synced c"
proof -
  let ?c0 = "append_rows example_str2time Candles_empty (drop 1 example_rows)"
  have new: "Candles_new example_str2time (Some example_rows) (2008, 1, 2) (2008, 1, 4) = Inr ?c0"
    by (simp add: Candles_new_def LoadFromFile_def example_rows_def example_str2time_def
        Candles_empty_def Series_new_def push_back_candle_def push_back_def append_rows_def
        append_column_def row_time_def)
  have "\<exists>c. run example_str2time example_ops ?c0 = Inr c
       \<and> Candles_size c = 3 \<and> Candles_getFirst c = 1 \<and> Candles_getFlags c = 16"
    by (simp add: example_ops_def LoadFromFile_def example_rows_def example_str2time_def
        Candles_empty_def Series_new_def push_back_candle_def push_back_def append_rows_def
        append_column_def row_time_def Candles_setFirst_def Candles_setFlags_def setFirst_def
        setFlags_def Candles_size_def Series_size_def Candles_getFirst_def Candles_getFlags_def)
  then obtain c where c: "run example_str2time example_ops ?c0 = Inr c"
    and facts: "Candles_size c = 3 \<and> Candles_getFirst c = 1 \<and> Candles_getFlags c = 16"
    by blast
  have "Candles_aligned c \<and> Candles_synced c"
    using Candles_invariant [OF new c] by simp
  then show ?thesis using new c facts by blast
qed

subsection \<open>Panes and their data blocks\<close>

lemma emit_rows_eq:
  "emit_rows n skip row i d = d @ map row (filter (\<lambda>j. \<not> skip j) [i..<n])"
proof (induction n skip row i d rule: emit_rows.induct)
  case (1 n skip row i d)
  show ?case
  proof (cases "i < n")
    case True
    then have upt: "[i..<n] = i # [Suc i..<n]" by (simp add: upt_conv_Cons)
    show ?thesis
    proof (cases "skip i")
      case True
      with \<open>i < n\<close> "1.IH"(1) upt show ?thesis
        by (subst emit_rows.simps) simp
    next
      case False
      with \<open>i < n\<close> "1.IH"(2) upt show ?thesis
        by (subst emit_rows.simps) simp
    qed
  next
    case False
    then show ?thesis by (subst emit_rows.simps) simp
  qed
qed

lemma drawCandles_data:
  "data (drawCandles pane series bars)
     = data pane @ map (candle_row series) (green_indices series) @ [DataEnd]
         @ map (candle_row series) (red_indices series) @ [DataEnd]"
  by (simp add: drawCandles_def Let_def emit_rows_eq green_indices_def red_indices_def
      not_less)

lemma drawVolumes_data:
  "data (drawVolumes pane series)
     = data pane @ map (volume_row series) (green_indices series) @ [DataEnd]
         @ map (volume_row series) (red_indices series) @ [DataEnd]"
  by (simp add: drawVolumes_def Let_def emit_rows_eq green_indices_def red_indices_def
      not_less)

lemma count_list_filter_upt:
  "count_list (filter P [0..<n]) i = (if i < n \<and> P i then 1 else 0)"
  by (induction n) auto

lemma sorted_filter_upt: "sorted_wrt (<) (filter P [0..<n])"
  by (rule sorted_wrt_filter) simp








text \<open>
  C10. For every bundle whose members have equal length, \<open>drawCandles\<close> and
  \<open>drawVolumes\<close> append two blocks to the data of the pane, each ended by the line
  \<open>e\<close>: the rows of the indices with \<open>open[i] \<le> close[i]\<close> and then the rows of the
  other indices. Every index below \<open>size()\<close> has its row exactly once in the two
  blocks together, in the first one if and only if \<open>open[i] \<le> close[i]\<close>, and in each
  block the indices increase strictly.
\<close>

theorem draw_blocks:
  fixes series :: "'t Candles"
  assumes "Candles_aligned series"
  shows "data (drawCandles pane series bars)
           = data pane @ map (candle_row series) (green_indices series) @ [DataEnd]
               @ map (candle_row series) (red_indices series) @ [DataEnd]
       \<and> data (drawVolumes pane series)
           = data pane @ map (volume_row series) (green_indices series) @ [DataEnd]
               @ map (volume_row series) (red_indices series) @ [DataEnd]
       \<and> (\<forall>i. i < Candles_size series \<longrightarrow>
             count_list (green_indices series @ red_indices series) i = 1
           \<and> (i \<in> set (green_indices series)
                \<longleftrightarrow> Series_at (getOpen series) i \<le> Series_at (getClose series) i)
           \<and> (i \<in> set (red_indices series)
                \<longleftrightarrow> \<not> Series_at (getOpen series) i \<le> Series_at (getClose series) i))
       \<and> sorted_wrt (<) (green_indices series) \<and> sorted_wrt (<) (red_indices series)"
proof (intro conjI allI impI)
  show "data (drawCandles pane series bars)
           = data pane @ map (candle_row series) (green_indices series) @ [DataEnd]
               @ map (candle_row series) (red_indices series) @ [DataEnd]"
    by (rule drawCandles_data)
  show "data (drawVolumes pane series)
           = data pane @ map (volume_row series) (green_indices series) @ [DataEnd]
               @ map (volume_row series) (red_indices series) @ [DataEnd]"
    by (rule drawVolumes_data)
  show "sorted_wrt (<) (green_indices series)"
    unfolding green_indices_def by (rule sorted_filter_upt)
  show "sorted_wrt (<) (red_indices series)"
    unfolding red_indices_def by (rule sorted_filter_upt)
next
  fix i assume "i < Candles_size series"
  then show "count_list (green_indices series @ red_indices series) i = 1"
    by (simp add: green_indices_def red_indices_def count_list_filter_upt)
  from \<open>i < Candles_size series\<close>
  show "(i \<in> set (green_indices series))
          = (Series_at (getOpen series) i \<le> Series_at (getClose series) i)"
    by (simp add: green_indices_def)
  from \<open>i < Candles_size series\<close>
  show "(i \<in> set (red_indices series))
          = (\<not> Series_at (getOpen series) i \<le> Series_at (getClose series) i)"
    by (simp add: red_indices_def)
qed


lemma example_candles_columns:
  "elems (getOpen example_candles) = [10, 11, 12]"
  "elems (getHigh example_candles) = [12, 13, 12]"
  "elems (getLow example_candles) = [9, 10, 8]"
  "elems (getClose example_candles) = [11, 12, 9]"
  "elems (getVolume example_candles) = [100, 200, 300]"
  "elems (getOpenInterest example_candles) = [0, 0, 0]"
  "elems (getTime example_candles) = [(2008, 1, 1), (2008, 1, 2), (2008, 1, 3)]"
  by (simp_all add: example_candles_def append_rows_def append_column_def Candles_empty_def
      Series_new_def example_rows_def example_str2time_def row_time_def)

theorem draw_blocks_witness:
  "Candles_aligned example_candles
   \<and> green_indices example_candles = [0, 1] \<and> red_indices example_candles = [2]
   \<and> data (drawCandles GnuplotPane_new example_candles True)
       = [DataRow 0 [10, 12, 9, 11], DataRow 1 [11, 13, 10, 12], DataEnd,
          DataRow 2 [12, 12, 8, 9], DataEnd]
   \<and> data (drawVolumes GnuplotPane_new example_candles)
       = [DataRow 0 [100], DataRow 1 [200], DataEnd, DataRow 2 [300], DataEnd]"
proof -
  have aligned: "Candles_aligned example_candles"
    by (simp add: Candles_aligned_def Series_size_def example_candles_columns)
  have upt3: "[0..<3] = [0, 1, 2]"
    by (simp add: upt_rec)
  have green: "green_indices example_candles = [0, 1]"
    by (simp add: green_indices_def Candles_size_def Series_size_def Series_at_def
        example_candles_columns upt3)
  have red: "red_indices example_candles = [2]"
    by (simp add: red_indices_def Candles_size_def Series_size_def Series_at_def
        example_candles_columns upt3)
  have rows: "map (candle_row example_candles) [0, 1] = [DataRow 0 [10, 12, 9, 11], DataRow 1 [11, 13, 10, 12]]"
    "map (candle_row example_candles) [2] = [DataRow 2 [12, 12, 8, 9]]"
    "map (volume_row example_candles) [0, 1] = [DataRow 0 [100], DataRow 1 [200]]"
    "map (volume_row example_candles) [2] = [DataRow 2 [300]]"
    by (simp_all add: candle_row_def volume_row_def Series_at_def example_candles_columns)
  have empty: "data GnuplotPane_new = []"
    by (simp add: GnuplotPane_new_def)
  show ?thesis
    using draw_blocks [OF aligned, of GnuplotPane_new True] aligned
    by (simp only: green red rows empty) simp
qed

end
